theory Spec2Isabelle
  imports Main "HOL-Library.Sublist"
begin

section \<open>Data model of the request layer\<close>

text \<open>
  Go strings and byte slices are byte sequences: both are \<open>string\<close> (a \<open>char list\<close>).
  An \<open>error\<close> value of Go is a value of \<open>goerror\<close>; a nil error is \<open>None\<close>.
\<close>

type_synonym bytes = string

datatype goerror =
    ErrorResponse int string
  | LibError string
  | ErrEOF
  | Panic string

text \<open>
  \<open>url.URL\<close> restricted to the fields the request layer reads (\<open>Scheme\<close>, \<open>Host\<close>,
  \<open>Path\<close>). \<open>URL_String\<close> is \<open>(*url.URL).String\<close> for an absolute URL with a host,
  without user info, query or fragment, whose path needs no escaping.
\<close>

record URL =
  Scheme :: string
  Host :: string
  Path :: string

definition URL_String :: "URL \<Rightarrow> string" where
  "URL_String u = Scheme u @ ''://'' @ Host u @ Path u"

text \<open>The transport configuration and the HTTP client of \<open>src/request.go\<close>, lines 17-30.\<close>

record tls_Config =
  InsecureSkipVerify :: bool

record http_Transport =
  DisableCompression :: bool
  MaxIdleConns :: nat
  IdleConnTimeout :: nat
  TLSHandshakeTimeout :: nat
  TLSClientConfig :: tls_Config

record http_Client =
  Transport :: "http_Transport option"
  Timeout :: nat

record Requester =
  client :: http_Client
  baseURL :: URL
  username :: string
  password :: string
  authType :: string

record Gerrit =
  Requester :: Requester

section \<open>Configuring authentication\<close>

text \<open>
  \<open>log.Fatal\<close> prints its message and ends the process with \<open>os.Exit(1)\<close>; the
  \<open>return\<close> after it is never reached. A call therefore either returns with the new
  state, or ends the process in the state it had reached: \<open>Fatal msg s\<close>.
\<close>

datatype 'a outcome = Fatal string 'a | Return 'a

definition allowedAuthTypes :: "string list" where
  "allowedAuthTypes = [''basic'', ''digest'', ''cookie'']"

text \<open>The \<open>for ... range allowedAuthTypes\<close> loop with its \<open>break\<close>.\<close>

fun found_in :: "string \<Rightarrow> string list \<Rightarrow> bool" where
  "found_in authType' [] = False"
| "found_in authType' (allowedType # rest) =
     (if authType' = allowedType then True else found_in authType' rest)"

text \<open>\<open>Requester.SetAuth\<close>, first document of \<open>src/unnamed/part_007\<close>, lines 249-276.\<close>

definition SetAuth :: "string \<Rightarrow> string \<Rightarrow> string \<Rightarrow> Requester \<Rightarrow> Requester outcome" where
  "SetAuth authType' username' password' r =
     (if authType' = [] \<or> username' = [] \<or> password' = []
      then Fatal ''authType, username, and password cannot be empty'' r
      else if \<not> found_in authType' allowedAuthTypes
      then Fatal ''Unsupported authType'' r
      else Return (r\<lparr>authType := authType', username := username', password := password'\<rparr>))"

text \<open>\<open>Gerrit.SetAuth\<close>, first document of \<open>src/unnamed/part_003\<close>, lines 50-77.\<close>

definition Gerrit_SetAuth :: "string \<Rightarrow> string \<Rightarrow> string \<Rightarrow> Gerrit \<Rightarrow> Gerrit outcome" where
  "Gerrit_SetAuth authType' username' password' g =
     (if authType' = [] \<or> username' = [] \<or> password' = []
      then Fatal ''authType, username, and password cannot be empty'' g
      else if \<not> found_in authType' allowedAuthTypes
      then Fatal ''Unsupported authType'' g
      else Return (g\<lparr>Requester :=
             (Requester g)\<lparr>authType := authType', username := username', password := password'\<rparr>\<rparr>))"

section \<open>Building a request\<close>

text \<open>
  The payload \<open>opt interface{}\<close> of a call is nil, a Go \<open>string\<close>, or any other value
  (\<open>reflect.TypeOf(opt).String() == "string"\<close> tells the second from the third).
\<close>

datatype 'v payload = PNil | PString string | PValue 'v

text \<open>
  \<open>http.Request\<close>: the method, the URL the request was built from, the header map
  (a key without an entry has the empty list) and the body, if one was attached.
\<close>

record request =
  Method :: string
  URLStr :: string
  Header :: "string \<Rightarrow> string list"
  Body :: "bytes option"

text \<open>
  \<open>http.Response\<close>: the status code and the body stream, which delivers \<open>RespBody\<close> and
  then ends, with a read error if \<open>RespBodyErr\<close> is set.
\<close>

record response =
  StatusCode :: int
  RespBody :: bytes
  RespBodyErr :: "goerror option"

text \<open>
  The result of \<open>(*http.Client).Do\<close>: an error (with a response only when a redirect
  check failed), or a completed exchange with its response.
\<close>

datatype exchange = Failed "response option" goerror | Completed response

text \<open>
  What the request layer calls outside of its own file, taken as parameters: the Go
  standard library (\<open>net/http\<close>, \<open>net/url\<close>, \<open>encoding/json\<close>), the network behind
  \<open>client.Do\<close>, and \<open>addOptions\<close>, a function of this package whose source is not among
  the files. \<open>request_error\<close> is the check of \<open>http.NewRequestWithContext\<close> on the
  method and the URL; \<open>basicAuth\<close> is the base64 credential of \<open>SetBasicAuth\<close>;
  \<open>cookie_pair\<close> is the sanitized \<open>name=value\<close> of \<open>AddCookie\<close>; \<open>json_Decode\<close> is
  \<open>json.NewDecoder(body).Decode\<close> on the rest of a body stream; \<open>error_message\<close> is the
  parse of an error body.
\<close>

record 'v golib =
  addOptions :: "string \<Rightarrow> 'v payload \<Rightarrow> goerror + string"
  request_error :: "string \<Rightarrow> string \<Rightarrow> goerror option"
  json_Marshal :: "'v \<Rightarrow> goerror + bytes"
  json_Unmarshal :: "bytes \<Rightarrow> goerror + 'v"
  json_Decode :: "bytes \<Rightarrow> goerror option \<Rightarrow> goerror + 'v"
  url_Parse :: "string \<Rightarrow> URL option"
  basicAuth :: "string \<Rightarrow> string \<Rightarrow> string"
  cookie_pair :: "string \<Rightarrow> string \<Rightarrow> string"
  client_Do :: "http_Client \<Rightarrow> request \<Rightarrow> exchange"
  error_message :: "bytes \<Rightarrow> string"

definition Header_Get :: "(string \<Rightarrow> string list) \<Rightarrow> string \<Rightarrow> string" where
  "Header_Get h k = (case h k of [] \<Rightarrow> [] | v # _ \<Rightarrow> v)"

definition Header_Set :: "string \<Rightarrow> string \<Rightarrow> request \<Rightarrow> request" where
  "Header_Set k v req = req\<lparr>Header := (Header req)(k := [v])\<rparr>"

definition Header_Add :: "string \<Rightarrow> string \<Rightarrow> request \<Rightarrow> request" where
  "Header_Add k v req = req\<lparr>Header := (Header req)(k := Header req k @ [v])\<rparr>"

definition TrimPrefix :: "string \<Rightarrow> string \<Rightarrow> string" where
  "TrimPrefix s p = (if prefix p s then drop (length p) s else s)"

text \<open>
  \<open>http.NewRequestWithContext(ctx, method, urlStr, nil)\<close> with a non-nil context: an
  empty method means GET; the new request has no header and no body.
\<close>

definition http_NewRequestWithContext :: "'v golib \<Rightarrow> string \<Rightarrow> string \<Rightarrow> goerror + request" where
  "http_NewRequestWithContext L method urlStr =
     (case request_error L method urlStr of
        Some err \<Rightarrow> Inl err
      | None \<Rightarrow> Inr \<lparr>Method = (if method = [] then ''GET'' else method), URLStr = urlStr,
                       Header = (\<lambda>k. []), Body = None\<rparr>)"

definition SetBasicAuth :: "'v golib \<Rightarrow> string \<Rightarrow> string \<Rightarrow> request \<Rightarrow> request" where
  "SetBasicAuth L u p req = Header_Set ''Authorization'' (''Basic '' @ basicAuth L u p) req"

definition AddCookie :: "'v golib \<Rightarrow> string \<Rightarrow> string \<Rightarrow> request \<Rightarrow> request" where
  "AddCookie L name val req =
     (let s = cookie_pair L name val; c = Header_Get (Header req) ''Cookie''
      in if c \<noteq> [] then Header_Set ''Cookie'' (c @ ''; '' @ s) req
         else Header_Set ''Cookie'' s req)"

definition hasAuth :: "Requester \<Rightarrow> bool" where
  "hasAuth r = (length (authType r) \<noteq> 0 \<and> length (username r) \<noteq> 0 \<and> length (password r) \<noteq> 0)"

text \<open>The payload block of \<open>NewRequest\<close> (\<open>src/request.go\<close>, lines 76-91).\<close>

definition attach_payload :: "'v golib \<Rightarrow> string \<Rightarrow> 'v payload \<Rightarrow> request \<Rightarrow> goerror + request" where
  "attach_payload L method opt req =
     (if opt \<noteq> PNil \<and> (method = ''POST'' \<or> method = ''PUT'') then
        (case opt of
           PString s \<Rightarrow>
             Inr (Header_Add ''Content-Type'' ''plain/text;charset=UTF-8'' (req\<lparr>Body := Some s\<rparr>))
         | PValue x \<Rightarrow>
             (case json_Marshal L x of
                Inl err \<Rightarrow> Inl err
              | Inr buf \<Rightarrow> Inr (Header_Set ''Content-Type'' ''application/json'' (req\<lparr>Body := Some buf\<rparr>)))
         | PNil \<Rightarrow> Inr req)
      else Inr req)"

text \<open>The authentication switch of \<open>NewRequest\<close> (\<open>src/request.go\<close>, lines 94-103).\<close>

definition apply_auth :: "'v golib \<Rightarrow> Requester \<Rightarrow> request \<Rightarrow> request" where
  "apply_auth L r req =
     (if hasAuth r then
        (if authType r = ''cookie'' then AddCookie L (username r) (password r) req
         else if authType r = ''digest'' then req
         else SetBasicAuth L (username r) (password r) req)
      else req)"

text \<open>\<open>Requester.NewRequest\<close> of \<open>src/request.go\<close>, lines 43-110.\<close>

definition NewRequest ::
  "'v golib \<Rightarrow> Requester \<Rightarrow> string \<Rightarrow> string \<Rightarrow> 'v payload \<Rightarrow> goerror + request" where
  "NewRequest L r method endpoint opt =
     (let urlStr = TrimPrefix endpoint ''/'';
          urlStr = (if hasAuth r then ''a/'' @ urlStr else urlStr);
          urlStr = URL_String (baseURL r) @ urlStr
      in case (if method = ''GET'' then addOptions L urlStr opt else Inr urlStr) of
           Inl err \<Rightarrow> Inl err
         | Inr urlStr \<Rightarrow>
             (case http_NewRequestWithContext L method urlStr of
                Inl err \<Rightarrow> Inl err
              | Inr req \<Rightarrow>
                  (case attach_payload L method opt req of
                     Inl err \<Rightarrow> Inl err
                   | Inr req \<Rightarrow>
                       Inr (Header_Set ''Accept'' ''application/json'' (apply_auth L r req)))))"

text \<open>
  The authentication methods of the first document of \<open>src/unnamed/part_007\<close>
  (lines 40-77): \<open>CookieAuth\<close>, \<open>BasicAuth\<close> and \<open>DigestAuth\<close> with their
  \<open>ApplyAuthentication\<close>; the body of \<open>DigestAuth.ApplyAuthentication\<close> is a TODO comment.
\<close>

datatype AuthMethod = CookieAuth string string | BasicAuth string string | DigestAuth string string

fun ApplyAuthentication :: "'v golib \<Rightarrow> AuthMethod \<Rightarrow> request \<Rightarrow> request" where
  "ApplyAuthentication L (CookieAuth u p) req = AddCookie L u p req"
| "ApplyAuthentication L (BasicAuth u p) req = SetBasicAuth L u p req"
| "ApplyAuthentication L (DigestAuth u p) req = req"

definition apply_auth_p007 :: "'v golib \<Rightarrow> Requester \<Rightarrow> request \<Rightarrow> request" where
  "apply_auth_p007 L r req =
     (if hasAuth r then
        (if authType r = ''cookie'' then ApplyAuthentication L (CookieAuth (username r) (password r)) req
         else if authType r = ''digest'' then ApplyAuthentication L (DigestAuth (username r) (password r)) req
         else ApplyAuthentication L (BasicAuth (username r) (password r)) req)
      else req)"

text \<open>
  \<open>Requester.NewRequest\<close> of the first document of \<open>src/unnamed/part_007\<close>, lines
  90-174. It differs from \<open>src/request.go\<close> in how the prefix is placed: the base URL is
  parsed again and rebuilt as \<open>scheme://host/a\<close> followed by its path. A failed parse
  leaves \<open>u\<close> nil, and reading \<open>u.Scheme\<close> panics.
\<close>

definition NewRequest_p007 ::
  "'v golib \<Rightarrow> Requester \<Rightarrow> string \<Rightarrow> string \<Rightarrow> 'v payload \<Rightarrow> goerror + request" where
  "NewRequest_p007 L r method endpoint opt =
     (let urlStr = TrimPrefix endpoint ''/'';
          baseURL' = URL_String (baseURL r)
      in case (if hasAuth r then
                 (case url_Parse L baseURL' of
                    None \<Rightarrow> Inl (Panic ''nil pointer dereference'')
                  | Some u \<Rightarrow> Inr (Scheme u @ ''://'' @ Host u @ ''/a'' @ Path u))
               else Inr baseURL') of
           Inl err \<Rightarrow> Inl err
         | Inr baseURL' \<Rightarrow>
             (let urlStr = baseURL' @ urlStr
              in case (if method = ''GET'' then addOptions L urlStr opt else Inr urlStr) of
                   Inl err \<Rightarrow> Inl err
                 | Inr urlStr \<Rightarrow>
                     (case http_NewRequestWithContext L method urlStr of
                        Inl err \<Rightarrow> Inl err
                      | Inr req \<Rightarrow>
                          (case attach_payload L method opt req of
                             Inl err \<Rightarrow> Inl err
                           | Inr req \<Rightarrow>
                               Inr (Header_Set ''Accept'' ''application/json''
                                      (apply_auth_p007 L r req))))))"

section \<open>Executing a request and decoding the response\<close>

text \<open>
  Modelled from the spec: \<open>CheckResponse\<close> is called by \<open>Do\<close> but its source is not
  among the files. Spec 4.4, step 2: any non-2xx status produces a structured error
  carrying the status code and a best-effort parse of the server's error body as the
  message.
\<close>

definition CheckResponse :: "'v golib \<Rightarrow> response \<Rightarrow> goerror option" where
  "CheckResponse L resp =
     (if 200 \<le> StatusCode resp \<and> StatusCode resp \<le> 299 then None
      else Some (ErrorResponse (StatusCode resp) (error_message L (RespBody resp))))"

text \<open>
  The sentinel line that Gerrit puts before a JSON body: the four characters
  \<open>)]}'\<close> and a newline, five bytes.
\<close>

definition magicPrefix :: bytes where
  "magicPrefix = [CHR '')'', CHR '']'', CHR ''}'', CHR 0x27, CHR 0x0A]"

text \<open>
  Modelled from the spec: \<open>RemoveMagicPrefixLine\<close> is called by \<open>Do\<close> but its source is
  not among the files. Spec 2 and 4.4: it removes the fixed sentinel byte sequence that
  the server prepends; stripping is a no-op if the prefix is not present.
\<close>

definition RemoveMagicPrefixLine :: "bytes \<Rightarrow> bytes" where
  "RemoveMagicPrefixLine body =
     (if prefix magicPrefix body then drop (length magicPrefix) body else body)"

text \<open>
  The destination \<open>v interface{}\<close> of a call: nil, an \<open>io.Writer\<close> (given by what its
  \<open>Write\<close> answers to the bytes), a \<open>*string\<close>, or a pointer to any other value. What
  the call has put into the destination when it returns is a \<open>stored\<close> value.
\<close>

datatype dest = DNil | DWriter "bytes \<Rightarrow> goerror option" | DString | DValue

datatype 'v stored = NoStore | Written bytes | StoredString string | StoredValue 'v

text \<open>
  \<open>io.ReadAll\<close>, \<open>io.Copy\<close> and \<open>io.CopyN(io.Discard, body, n)\<close> on a response body.
  \<open>io.Copy\<close> writes nothing when the body is empty.
\<close>

definition io_ReadAll :: "response \<Rightarrow> bytes \<times> goerror option" where
  "io_ReadAll resp = (RespBody resp, RespBodyErr resp)"

definition io_Copy :: "(bytes \<Rightarrow> goerror option) \<Rightarrow> response \<Rightarrow> goerror option" where
  "io_Copy w resp =
     (if RespBody resp = [] then RespBodyErr resp
      else (case w (RespBody resp) of Some err \<Rightarrow> Some err | None \<Rightarrow> RespBodyErr resp))"

definition io_CopyN_Discard :: "response \<Rightarrow> nat \<Rightarrow> goerror option" where
  "io_CopyN_Discard resp n =
     (if n \<le> length (RespBody resp) then None
      else (case RespBodyErr resp of Some err \<Rightarrow> Some err | None \<Rightarrow> Some ErrEOF))"

text \<open>\<open>strings.Trim(s, cutset)\<close> for a cutset of ASCII characters.\<close>

definition Trim :: "string \<Rightarrow> string \<Rightarrow> string" where
  "Trim s cutset =
     rev (dropWhile (\<lambda>c. c \<in> set cutset) (rev (dropWhile (\<lambda>c. c \<in> set cutset) s)))"

text \<open>\<open>Requester.Do\<close> of \<open>src/request.go\<close>, lines 112-149.\<close>

definition Do ::
  "'v golib \<Rightarrow> Requester \<Rightarrow> request \<Rightarrow> dest \<Rightarrow> response option \<times> goerror option \<times> 'v stored" where
  "Do L r req v =
     (case client_Do L (client r) req of
        Failed resp err \<Rightarrow> (resp, Some err, NoStore)
      | Completed resp \<Rightarrow>
          (case CheckResponse L resp of
             Some err \<Rightarrow> (Some resp, Some err, NoStore)
           | None \<Rightarrow>
               (case v of
                  DNil \<Rightarrow> (Some resp, None, NoStore)
                | DWriter w \<Rightarrow>
                    (case io_Copy w resp of
                       Some err \<Rightarrow> (None, Some err, NoStore)
                     | None \<Rightarrow> (Some resp, None, Written (RespBody resp)))
                | _ \<Rightarrow>
                    (case io_ReadAll resp of
                       (body, Some err) \<Rightarrow> (Some resp, Some err, NoStore)
                     | (body, None) \<Rightarrow>
                         (let body = RemoveMagicPrefixLine body
                          in case json_Unmarshal L body of
                               Inl err \<Rightarrow> (Some resp, Some err, NoStore)
                             | Inr x \<Rightarrow> (Some resp, None, StoredValue x))))))"

text \<open>\<open>Requester.Call\<close> of \<open>src/request.go\<close>, lines 151-163.\<close>

definition Call ::
  "'v golib \<Rightarrow> Requester \<Rightarrow> string \<Rightarrow> string \<Rightarrow> 'v payload \<Rightarrow> dest
     \<Rightarrow> response option \<times> goerror option \<times> 'v stored" where
  "Call L r method u opt v =
     (case NewRequest L r method u opt of
        Inl err \<Rightarrow> (None, Some err, NoStore)
      | Inr req \<Rightarrow>
          (case Do L r req v of
             (resp, Some err, st) \<Rightarrow> (resp, Some err, st)
           | (resp, None, st) \<Rightarrow> (resp, None, st)))"

text \<open>
  \<open>Requester.Do\<close> of the first document of \<open>src/unnamed/part_007\<close>, lines 176-229: a
  \<open>*string\<close> destination asks for \<open>text/plain\<close> and receives the trimmed text; any
  other non-writer destination has five bytes of the body discarded and the rest
  decoded as JSON.
\<close>

definition Do_p007 ::
  "'v golib \<Rightarrow> Requester \<Rightarrow> request \<Rightarrow> dest \<Rightarrow> response option \<times> goerror option \<times> 'v stored" where
  "Do_p007 L r req v =
     (let isText = (case v of DString \<Rightarrow> True | _ \<Rightarrow> False);
          req = (if isText then Header_Set ''Accept'' ''text/plain'' req else req)
      in case client_Do L (client r) req of
           Failed resp err \<Rightarrow> (resp, Some err, NoStore)
         | Completed resp \<Rightarrow>
             (case CheckResponse L resp of
                Some err \<Rightarrow> (Some resp, Some err, NoStore)
              | None \<Rightarrow>
                  (case v of
                     DNil \<Rightarrow> (Some resp, None, NoStore)
                   | DWriter w \<Rightarrow>
                       (case io_Copy w resp of
                          Some err \<Rightarrow> (None, Some err, NoStore)
                        | None \<Rightarrow> (Some resp, None, Written (RespBody resp)))
                   | _ \<Rightarrow>
                       (if isText then
                          (case io_ReadAll resp of
                             (body, Some err) \<Rightarrow> (Some resp, Some err, NoStore)
                           | (body, None) \<Rightarrow>
                               (let body = RemoveMagicPrefixLine body
                                in (Some resp, None, StoredString (Trim body [CHR 0x22, CHR 0x0A]))))
                        else
                          (case io_CopyN_Discard resp 5 of
                             Some err \<Rightarrow> (Some resp, Some err, NoStore)
                           | None \<Rightarrow>
                               (case json_Decode L (drop 5 (RespBody resp)) (RespBodyErr resp) of
                                  Inl err \<Rightarrow> (Some resp, Some err, NoStore)
                                | Inr x \<Rightarrow> (Some resp, None, StoredValue x)))))))"

text \<open>\<open>Requester.Call\<close> of the first document of \<open>src/unnamed/part_007\<close>, lines 231-243.\<close>

definition Call_p007 ::
  "'v golib \<Rightarrow> Requester \<Rightarrow> string \<Rightarrow> string \<Rightarrow> 'v payload \<Rightarrow> dest
     \<Rightarrow> response option \<times> goerror option \<times> 'v stored" where
  "Call_p007 L r method u opt v =
     (case NewRequest_p007 L r method u opt of
        Inl err \<Rightarrow> (None, Some err, NoStore)
      | Inr req \<Rightarrow>
          (case Do_p007 L r req v of
             (resp, Some err, st) \<Rightarrow> (resp, Some err, st)
           | (resp, None, st) \<Rightarrow> (resp, None, st)))"

section \<open>Constructing a client\<close>

text \<open>
  Modelled from the spec: \<open>SetBaseURL\<close> is called by \<open>NewClient\<close> but its source is not
  among the files. Spec 4.1: the input is a string; the string must parse as a valid
  absolute URL; if it lacks a trailing path separator, one is appended; unparsable
  input returns an error. The parser is \<open>url.Parse\<close>; absolute means a non-empty scheme.
\<close>

definition SetBaseURL :: "'v golib \<Rightarrow> string \<Rightarrow> goerror + URL" where
  "SetBaseURL L urlStr =
     (case url_Parse L urlStr of
        None \<Rightarrow> Inl (LibError ''base URL does not parse'')
      | Some u \<Rightarrow>
          (if Scheme u = [] then Inl (LibError ''base URL is not absolute'')
           else if suffix ''/'' (Path u) then Inr u
           else Inr (u\<lparr>Path := Path u @ ''/''\<rparr>)))"

text \<open>
  \<open>transport\<close> and \<open>defaultClient\<close> of \<open>src/request.go\<close>, lines 17-30; durations in
  seconds. The proxy function is left out.
\<close>

definition transport :: http_Transport where
  "transport = \<lparr>DisableCompression = True, MaxIdleConns = 10, IdleConnTimeout = 30,
                 TLSHandshakeTimeout = 10, TLSClientConfig = \<lparr>InsecureSkipVerify = True\<rparr>\<rparr>"

definition defaultClient :: http_Client where
  "defaultClient = \<lparr>Transport = Some transport, Timeout = 15\<rparr>"

text \<open>
  \<open>crypto/tls\<close> on the client side: with \<open>InsecureSkipVerify\<close> the client accepts any
  certificate chain and host name the server presents; without it, only a chain that
  verifies.
\<close>

definition accepts_certificate :: "tls_Config \<Rightarrow> bool \<Rightarrow> bool" where
  "accepts_certificate cfg chain_verifies = (InsecureSkipVerify cfg \<or> chain_verifies)"

text \<open>
  \<open>NewClient\<close> of the first document of \<open>src/unnamed/part_005\<close>, lines 19-43, the
  constructor that falls back to \<open>defaultClient\<close>. The services are back-references to
  the client and are left out of \<open>Gerrit\<close>.
\<close>

definition NewClient :: "'v golib \<Rightarrow> string \<Rightarrow> http_Client option \<Rightarrow> goerror + Gerrit" where
  "NewClient L gerritURL httpClient =
     (let httpClient = (case httpClient of None \<Rightarrow> defaultClient | Some c \<Rightarrow> c)
      in case SetBaseURL L gerritURL of
           Inl err \<Rightarrow> Inl err
         | Inr baseURL' \<Rightarrow>
             Inr \<lparr>Requester = \<lparr>client = httpClient, baseURL = baseURL',
                                username = [], password = [], authType = []\<rparr>\<rparr>)"

section \<open>Resource handles\<close>


record ChangeInfo =
  ID :: string




text \<open>
  \<open>gerrit.Requester.Call(ctx, method, u, opt, v)\<close> as a handle sees it, for a
  destination \<open>v\<close> that points to an entity of type \<open>'i\<close>: the response, the error, and
  the entity that the destination holds after decoding, if something was decoded. A
  poll decodes into the entity that the handle already holds; the answer is taken to
  carry every field, so that the decoded entity replaces it. With a nil destination
  the third component is not looked at.
\<close>

type_synonym ('p, 'i) caller =
  "string \<Rightarrow> string \<Rightarrow> 'p payload \<Rightarrow> response option \<times> goerror option \<times> 'i option"




text \<open>
  The operations return their Go results together with the receiver as the call has
  left it (the receiver is a pointer and is updated in place).
\<close>








text \<open>
  The other handles with a \<open>Create\<close>: \<open>Group\<close>, \<open>Project\<close>, \<open>Branch\<close> and \<open>Tag\<close>.
  A branch and a tag also point to their project. The handle code reads \<open>ID\<close> of
  \<open>GroupInfo\<close> and no field of the other entities; \<open>esc\<close> is \<open>url.QueryEscape\<close>.
\<close>

record GroupInfo =
  ID :: string

record ProjectInfo =
  ID :: string
  Name :: string


















section \<open>Concrete inputs\<close>

text \<open>
  A library instance for concrete runs. Values are their own JSON text, and the empty
  input is not JSON; the request check accepts every method and URL; \<open>addOptions\<close>
  adds nothing; the credential encoders keep the text readable; the URL parser knows
  the four strings used below (\<open>url.Parse\<close> accepts the empty string and returns the
  empty URL). The server answers \<open>groups/1/name\<close> with 200 and a quoted string behind
  the sentinel line, \<open>accounts/self/preferences\<close> with 200 and the body \<open>{}\<close>,
  \<open>changes/1/edit/f\<close> with 204 and no body (the file was deleted in the change
  edit), and every other path with 404.
\<close>

definition server0 :: "http_Client \<Rightarrow> request \<Rightarrow> exchange" where
  "server0 c req =
     (if URLStr req = ''http://h/r/groups/1/name''
      then Completed \<lparr>StatusCode = 200,
                       RespBody = magicPrefix @ [CHR 0x22] @ ''demo'' @ [CHR 0x22, CHR 0x0A],
                       RespBodyErr = None\<rparr>
      else if URLStr req = ''http://h/r/accounts/self/preferences''
      then Completed \<lparr>StatusCode = 200, RespBody = ''{}'', RespBodyErr = None\<rparr>
      else if URLStr req = ''http://h/r/changes/1/edit/f''
      then Completed \<lparr>StatusCode = 204, RespBody = [], RespBodyErr = None\<rparr>
      else Completed \<lparr>StatusCode = 404, RespBody = ''Not found'', RespBodyErr = None\<rparr>)"

definition url_Parse0 :: "string \<Rightarrow> URL option" where
  "url_Parse0 s =
     (if s = ''http://h/r/'' then Some \<lparr>Scheme = ''http'', Host = ''h'', Path = ''/r/''\<rparr>
      else if s = ''http://h/r'' then Some \<lparr>Scheme = ''http'', Host = ''h'', Path = ''/r''\<rparr>
      else if s = ''http://h/'' then Some \<lparr>Scheme = ''http'', Host = ''h'', Path = ''/''\<rparr>
      else if s = [] then Some \<lparr>Scheme = [], Host = [], Path = []\<rparr>
      else None)"

definition lib0 :: "string golib" where
  "lib0 = \<lparr>addOptions = (\<lambda>u opt. Inr u),
            request_error = (\<lambda>m u. None),
            json_Marshal = (\<lambda>x. Inr x),
            json_Unmarshal =
              (\<lambda>b. if b = [] then Inl (LibError ''unexpected end of JSON input'') else Inr b),
            json_Decode = (\<lambda>b e. case e of Some err \<Rightarrow> Inl err | None \<Rightarrow> Inr b),
            url_Parse = url_Parse0,
            basicAuth = (\<lambda>u p. u @ '':'' @ p),
            cookie_pair = (\<lambda>n v. n @ ''='' @ v),
            client_Do = server0,
            error_message = (\<lambda>b. b)\<rparr>"

text \<open>A requester for the base URL \<open>http://h/r/\<close>, with and without credentials.\<close>

definition anon0 :: Requester where
  "anon0 = \<lparr>client = defaultClient, baseURL = \<lparr>Scheme = ''http'', Host = ''h'', Path = ''/r/''\<rparr>,
             username = [], password = [], authType = []\<rparr>"

definition basic0 :: Requester where
  "basic0 = anon0\<lparr>authType := ''basic'', username := ''u'', password := ''p''\<rparr>"

definition digest0 :: Requester where
  "digest0 = anon0\<lparr>authType := ''digest'', username := ''u'', password := ''p''\<rparr>"

text \<open>
  Servers for the handle operations: each answers every call with 200 and the same
  entity. The project server answers as Gerrit does for the project
  \<open>plugins/replication\<close>, whose \<open>id\<close> is the URL-encoded name. \<open>escape0\<close> is
  \<open>url.QueryEscape\<close> on names of letters and slashes.
\<close>

definition ok200 :: response where
  "ok200 = \<lparr>StatusCode = 200, RespBody = [], RespBodyErr = None\<rparr>"



definition group_server0 :: "(unit, GroupInfo) caller" where
  "group_server0 m u opt = (Some ok200, None, Some \<lparr>GroupInfo.ID = ''6a1e70e1a88782771a91808c8af9bbb7a9871389''\<rparr>)"




text \<open>
  The two placements of the authenticated-path prefix \<open>a/\<close> that the spec names.
  Spec 4.3, step 2: the segment comes immediately after the base URL (its host and
  optional path prefix), before the endpoint path. Spec 8, read by the letter: it
  comes directly behind the host's separator.
\<close>

definition prefix_after_base :: "URL \<Rightarrow> string \<Rightarrow> bool" where
  "prefix_after_base base u = prefix (URL_String base @ ''a/'') u"

definition prefix_after_host :: "URL \<Rightarrow> string \<Rightarrow> bool" where
  "prefix_after_host base u = prefix (Scheme base @ ''://'' @ Host base @ ''/a/'') u"

section \<open>Theorems\<close>


lemma found_in_set: "found_in a xs \<longleftrightarrow> a \<in> set xs"
  by (induction xs) auto

lemma found_in_allowed:
  "found_in a allowedAuthTypes \<longleftrightarrow> a \<in> {''basic'', ''digest'', ''cookie''}"
  by (simp add: found_in_set allowedAuthTypes_def)

text \<open>
  C7. Whenever set-auth is called with an empty scheme tag, an empty username or an empty
  secret, or with a scheme tag outside basic, digest and cookie, the call ends the
  process with a fatal error, and the authentication state at that point is the state
  before the call: nothing was modified. This holds for \<open>Requester.SetAuth\<close> and for
  \<open>Gerrit.SetAuth\<close>; neither builds a request.
\<close>

theorem SetAuth_invalid_fatal:
  assumes "a = [] \<or> u = [] \<or> p = [] \<or> a \<notin> {''basic'', ''digest'', ''cookie''}"
  shows "(\<exists>msg. SetAuth a u p r = Fatal msg r) \<and> (\<exists>msg. Gerrit_SetAuth a u p g = Fatal msg g)"
  using assms by (auto simp: SetAuth_def Gerrit_SetAuth_def found_in_allowed)

theorem SetAuth_invalid_fatal_witness:
  "(\<exists>msg. SetAuth ''ldap'' ''u'' ''p'' anon0 = Fatal msg anon0) \<and>
   (\<exists>msg. Gerrit_SetAuth ''ldap'' ''u'' ''p'' \<lparr>Requester = anon0\<rparr> = Fatal msg \<lparr>Requester = anon0\<rparr>)"
  using SetAuth_invalid_fatal [of "''ldap''" "''u''" "''p''" anon0 "\<lparr>Requester = anon0\<rparr>"] by simp

lemma apply_auth_digest:
  "authType r = ''digest'' \<Longrightarrow> apply_auth L r req = req"
  by (simp add: apply_auth_def)

lemma apply_auth_p007_digest:
  "authType r = ''digest'' \<Longrightarrow> apply_auth_p007 L r req = req"
  by (simp add: apply_auth_p007_def)

lemma attach_payload_auth_headers:
  "attach_payload L method opt req = Inr req' \<Longrightarrow>
   Header req' ''Authorization'' = Header req ''Authorization'' \<and>
   Header req' ''Cookie'' = Header req ''Cookie''"
  by (auto simp: attach_payload_def Header_Add_def Header_Set_def
           split: if_splits payload.splits sum.splits)

lemma new_request_fields:
  "http_NewRequestWithContext L method urlStr = Inr req \<Longrightarrow>
   Header req = (\<lambda>k. []) \<and> URLStr req = urlStr \<and> Body req = None"
  by (auto simp: http_NewRequestWithContext_def split: option.splits)

lemma attach_payload_url:
  "attach_payload L method opt req = Inr req' \<Longrightarrow> URLStr req' = URLStr req"
  by (auto simp: attach_payload_def Header_Add_def Header_Set_def
           split: if_splits payload.splits sum.splits)

lemma apply_auth_url: "URLStr (apply_auth L r req) = URLStr req"
  by (simp add: apply_auth_def AddCookie_def SetBasicAuth_def Header_Set_def Let_def)

lemma apply_auth_p007_url: "URLStr (apply_auth_p007 L r req) = URLStr req"
  by (simp add: apply_auth_p007_def AddCookie_def SetBasicAuth_def Header_Set_def Let_def)

lemma Header_Set_url: "URLStr (Header_Set k v req) = URLStr req"
  by (simp add: Header_Set_def)

lemma NewRequest_steps:
  assumes "NewRequest L r method endpoint opt = Inr req"
  shows "\<exists>u req0 req1.
           (if method = ''GET''
            then addOptions L (URL_String (baseURL r) @ (if hasAuth r then ''a/'' else []) @
                               TrimPrefix endpoint ''/'') opt = Inr u
            else u = URL_String (baseURL r) @ (if hasAuth r then ''a/'' else []) @
                     TrimPrefix endpoint ''/'') \<and>
           http_NewRequestWithContext L method u = Inr req0 \<and>
           attach_payload L method opt req0 = Inr req1 \<and>
           req = Header_Set ''Accept'' ''application/json'' (apply_auth L r req1)"
  using assms
  by (simp add: NewRequest_def Let_def split: sum.splits if_splits)

lemma NewRequest_p007_steps:
  assumes "NewRequest_p007 L r method endpoint opt = Inr req"
  shows "\<exists>b u req0 req1.
           (if hasAuth r
            then (\<exists>p. url_Parse L (URL_String (baseURL r)) = Some p \<and>
                      b = Scheme p @ ''://'' @ Host p @ ''/a'' @ Path p)
            else b = URL_String (baseURL r)) \<and>
           (if method = ''GET''
            then addOptions L (b @ TrimPrefix endpoint ''/'') opt = Inr u
            else u = b @ TrimPrefix endpoint ''/'') \<and>
           http_NewRequestWithContext L method u = Inr req0 \<and>
           attach_payload L method opt req0 = Inr req1 \<and>
           req = Header_Set ''Accept'' ''application/json'' (apply_auth_p007 L r req1)"
  using assms
  by (simp add: NewRequest_p007_def Let_def split: sum.splits if_splits option.splits)

text \<open>
  C1. Under the digest scheme (scheme tag \<open>digest\<close>) neither request builder adds
  credentials: whenever a request is returned, it has no \<open>Authorization\<close> header and
  no \<open>Cookie\<close> header, and, as the concrete run below shows, construction does not fail
  either. The claim asks for digest credentials or a failure; the code gives neither.
\<close>

theorem NewRequest_digest_unauthenticated:
  assumes "authType r = ''digest''"
  shows "(NewRequest L r method endpoint opt = Inr req \<longrightarrow>
            Header req ''Authorization'' = [] \<and> Header req ''Cookie'' = []) \<and>
         (NewRequest_p007 L r method endpoint opt = Inr req \<longrightarrow>
            Header req ''Authorization'' = [] \<and> Header req ''Cookie'' = [])"
proof (intro conjI impI)
  assume a: "NewRequest L r method endpoint opt = Inr req"
  from NewRequest_steps [OF a] obtain u req0 req1 where
    s: "http_NewRequestWithContext L method u = Inr req0"
       "attach_payload L method opt req0 = Inr req1"
       "req = Header_Set ''Accept'' ''application/json'' (apply_auth L r req1)"
    by blast
  from s(1) have h0: "Header req0 = (\<lambda>k. [])" by (simp add: new_request_fields)
  from attach_payload_auth_headers [OF s(2)] h0
  have h1: "Header req1 ''Authorization'' = []" "Header req1 ''Cookie'' = []" by simp_all
  from s(3) assms h1 show "Header req ''Authorization'' = []" "Header req ''Cookie'' = []"
    by (simp_all add: apply_auth_digest Header_Set_def)
next
  assume a: "NewRequest_p007 L r method endpoint opt = Inr req"
  from NewRequest_p007_steps [OF a] obtain u req0 req1 where
    s: "http_NewRequestWithContext L method u = Inr req0"
       "attach_payload L method opt req0 = Inr req1"
       "req = Header_Set ''Accept'' ''application/json'' (apply_auth_p007 L r req1)"
    by blast
  from s(1) have h0: "Header req0 = (\<lambda>k. [])" by (simp add: new_request_fields)
  from attach_payload_auth_headers [OF s(2)] h0
  have h1: "Header req1 ''Authorization'' = []" "Header req1 ''Cookie'' = []" by simp_all
  from s(3) assms h1 show "Header req ''Authorization'' = []" "Header req ''Cookie'' = []"
    by (simp_all add: apply_auth_p007_digest Header_Set_def)
qed

lemma eval_lib0 [simp]:
  "addOptions lib0 = (\<lambda>u opt. Inr u)" "request_error lib0 = (\<lambda>m u. None)"
  "json_Marshal lib0 = (\<lambda>x. Inr x)"
  "json_Unmarshal lib0 =
     (\<lambda>b. if b = [] then Inl (LibError ''unexpected end of JSON input'') else Inr b)"
  "url_Parse lib0 = url_Parse0" "basicAuth lib0 = (\<lambda>u p. u @ '':'' @ p)"
  "cookie_pair lib0 = (\<lambda>n v. n @ ''='' @ v)" "client_Do lib0 = server0"
  "error_message lib0 = (\<lambda>b. b)"
  by (simp_all add: lib0_def)

lemma digest0_fields [simp]:
  "authType digest0 = ''digest''" "username digest0 = ''u''" "password digest0 = ''p''"
  "baseURL digest0 = \<lparr>Scheme = ''http'', Host = ''h'', Path = ''/r/''\<rparr>"
  "client digest0 = defaultClient"
  by (simp_all add: digest0_def anon0_def)

lemma digest_request_built:
  "\<exists>req. NewRequest lib0 digest0 ''GET'' ''projects/'' PNil = Inr req"
  by (simp add: NewRequest_def Let_def http_NewRequestWithContext_def attach_payload_def)

lemma digest_request_built_p007:
  "\<exists>req. NewRequest_p007 lib0 digest0 ''GET'' ''projects/'' PNil = Inr req"
  by (simp add: NewRequest_p007_def Let_def http_NewRequestWithContext_def attach_payload_def
        hasAuth_def URL_String_def url_Parse0_def)

theorem NewRequest_digest_unauthenticated_witness:
  "(\<exists>req. NewRequest lib0 digest0 ''GET'' ''projects/'' PNil = Inr req \<and>
          Header req ''Authorization'' = [] \<and> Header req ''Cookie'' = []) \<and>
   (\<exists>req. NewRequest_p007 lib0 digest0 ''GET'' ''projects/'' PNil = Inr req \<and>
          Header req ''Authorization'' = [] \<and> Header req ''Cookie'' = [])"
  using NewRequest_digest_unauthenticated [of digest0 lib0 "''GET''" "''projects/''" PNil]
        digest_request_built digest_request_built_p007
  by auto


lemma attach_payload_string:
  assumes "method = ''POST'' \<or> method = ''PUT''"
    and "Header req ''Content-Type'' = []"
  shows "\<exists>req'. attach_payload L method (PString s) req = Inr req' \<and> Body req' = Some s \<and>
           Header req' ''Content-Type'' = [''plain/text;charset=UTF-8'']"
  using assms by (auto simp: attach_payload_def Header_Add_def)

lemma apply_auth_body_ctype:
  "Body (apply_auth L r req) = Body req \<and>
   Header (apply_auth L r req) ''Content-Type'' = Header req ''Content-Type''"
  by (simp add: apply_auth_def AddCookie_def SetBasicAuth_def Header_Set_def Let_def)

lemma apply_auth_p007_body_ctype:
  "Body (apply_auth_p007 L r req) = Body req \<and>
   Header (apply_auth_p007 L r req) ''Content-Type'' = Header req ''Content-Type''"
  by (simp add: apply_auth_p007_def AddCookie_def SetBasicAuth_def Header_Set_def Let_def)

text \<open>
  C2. For a POST or PUT call with a string payload, a returned request has the payload's
  bytes as its body, and its \<open>Content-Type\<close> header is \<open>plain/text;charset=UTF-8\<close>,
  not the \<open>text/plain\<close> of the claim.
\<close>

theorem NewRequest_string_payload:
  assumes "method = ''POST'' \<or> method = ''PUT''"
  shows "(NewRequest L r method endpoint (PString s) = Inr req \<longrightarrow>
            Body req = Some s \<and> Header req ''Content-Type'' = [''plain/text;charset=UTF-8'']) \<and>
         (NewRequest_p007 L r method endpoint (PString s) = Inr req \<longrightarrow>
            Body req = Some s \<and> Header req ''Content-Type'' = [''plain/text;charset=UTF-8''])"
proof (intro conjI impI)
  assume a: "NewRequest L r method endpoint (PString s) = Inr req"
  from NewRequest_steps [OF a] obtain u req0 req1 where
    st: "http_NewRequestWithContext L method u = Inr req0"
        "attach_payload L method (PString s) req0 = Inr req1"
        "req = Header_Set ''Accept'' ''application/json'' (apply_auth L r req1)"
    by blast
  from st(1) have "Header req0 ''Content-Type'' = []" by (simp add: new_request_fields)
  from attach_payload_string [OF assms this, of L s] st(2)
  have b: "Body req1 = Some s" "Header req1 ''Content-Type'' = [''plain/text;charset=UTF-8'']"
    by auto
  from st(3) b show "Body req = Some s"
    "Header req ''Content-Type'' = [''plain/text;charset=UTF-8'']"
    by (simp_all add: Header_Set_def apply_auth_body_ctype)
next
  assume a: "NewRequest_p007 L r method endpoint (PString s) = Inr req"
  from NewRequest_p007_steps [OF a] obtain u req0 req1 where
    st: "http_NewRequestWithContext L method u = Inr req0"
        "attach_payload L method (PString s) req0 = Inr req1"
        "req = Header_Set ''Accept'' ''application/json'' (apply_auth_p007 L r req1)"
    by blast
  from st(1) have "Header req0 ''Content-Type'' = []" by (simp add: new_request_fields)
  from attach_payload_string [OF assms this, of L s] st(2)
  have b: "Body req1 = Some s" "Header req1 ''Content-Type'' = [''plain/text;charset=UTF-8'']"
    by auto
  from st(3) b show "Body req = Some s"
    "Header req ''Content-Type'' = [''plain/text;charset=UTF-8'']"
    by (simp_all add: Header_Set_def apply_auth_p007_body_ctype)
qed

lemma anon0_fields [simp]:
  "authType anon0 = []" "username anon0 = []" "password anon0 = []"
  "baseURL anon0 = \<lparr>Scheme = ''http'', Host = ''h'', Path = ''/r/''\<rparr>"
  "client anon0 = defaultClient"
  by (simp_all add: anon0_def)

lemma basic0_fields [simp]:
  "authType basic0 = ''basic''" "username basic0 = ''u''" "password basic0 = ''p''"
  "baseURL basic0 = \<lparr>Scheme = ''http'', Host = ''h'', Path = ''/r/''\<rparr>"
  "client basic0 = defaultClient"
  by (simp_all add: basic0_def anon0_def)

lemma string_request_built:
  "\<exists>req. NewRequest lib0 anon0 ''PUT'' ''changes/1/edit/f'' (PString ''abc'') = Inr req"
  by (simp add: NewRequest_def Let_def http_NewRequestWithContext_def attach_payload_def)

lemma string_request_built_p007:
  "\<exists>req. NewRequest_p007 lib0 anon0 ''PUT'' ''changes/1/edit/f'' (PString ''abc'') = Inr req"
  by (simp add: NewRequest_p007_def Let_def http_NewRequestWithContext_def attach_payload_def
        hasAuth_def)

theorem NewRequest_string_payload_witness:
  "(\<exists>req. NewRequest lib0 anon0 ''PUT'' ''changes/1/edit/f'' (PString ''abc'') = Inr req \<and>
          Body req = Some ''abc'' \<and>
          Header req ''Content-Type'' = [''plain/text;charset=UTF-8''] \<and>
          Header req ''Content-Type'' \<noteq> [''text/plain'']) \<and>
   (\<exists>req. NewRequest_p007 lib0 anon0 ''PUT'' ''changes/1/edit/f'' (PString ''abc'') = Inr req \<and>
          Body req = Some ''abc'' \<and>
          Header req ''Content-Type'' = [''plain/text;charset=UTF-8''] \<and>
          Header req ''Content-Type'' \<noteq> [''text/plain''])"
  using NewRequest_string_payload [of "''PUT''" lib0 anon0 "''changes/1/edit/f''" "''abc''"]
        string_request_built string_request_built_p007
  by auto


lemma NewRequest_url:
  assumes "NewRequest L r method endpoint opt = Inr req"
  shows "if method = ''GET''
         then addOptions L (URL_String (baseURL r) @ (if hasAuth r then ''a/'' else []) @
                            TrimPrefix endpoint ''/'') opt = Inr (URLStr req)
         else URLStr req = URL_String (baseURL r) @ (if hasAuth r then ''a/'' else []) @
                           TrimPrefix endpoint ''/''"
proof -
  from NewRequest_steps [OF assms] obtain u req0 req1 where
    st: "if method = ''GET''
         then addOptions L (URL_String (baseURL r) @ (if hasAuth r then ''a/'' else []) @
                            TrimPrefix endpoint ''/'') opt = Inr u
         else u = URL_String (baseURL r) @ (if hasAuth r then ''a/'' else []) @
                  TrimPrefix endpoint ''/''"
        "http_NewRequestWithContext L method u = Inr req0"
        "attach_payload L method opt req0 = Inr req1"
        "req = Header_Set ''Accept'' ''application/json'' (apply_auth L r req1)"
    by blast
  have "URLStr req = u"
    using st(2,3,4) by (simp add: Header_Set_url apply_auth_url attach_payload_url new_request_fields)
  with st(1) show ?thesis by (simp split: if_splits)
qed

lemma basic_request_built:
  "\<exists>req. NewRequest lib0 basic0 ''POST'' ''/changes/'' PNil = Inr req"
  by (simp add: NewRequest_def Let_def http_NewRequestWithContext_def attach_payload_def)

lemma basic_request_built_p007:
  "\<exists>req. NewRequest_p007 lib0 basic0 ''POST'' ''/changes/'' PNil = Inr req"
  by (simp add: NewRequest_p007_def Let_def http_NewRequestWithContext_def attach_payload_def
        hasAuth_def URL_String_def url_Parse0_def)

lemma hasAuth_iff: "hasAuth r \<longleftrightarrow> authType r \<noteq> [] \<and> username r \<noteq> [] \<and> password r \<noteq> []"
  by (simp add: hasAuth_def)

lemma NewRequest_url_query:
  assumes "\<And>u u'. addOptions L u opt = Inr u' \<Longrightarrow> \<exists>q. u' = u @ q"
    and "NewRequest L r method endpoint opt = Inr req"
  shows "\<exists>q. URLStr req = URL_String (baseURL r) @ (if hasAuth r then ''a/'' else []) @
                 TrimPrefix endpoint ''/'' @ q \<and> (method \<noteq> ''GET'' \<longrightarrow> q = [])"
proof (cases "method = ''GET''")
  case True
  with NewRequest_url [OF assms(2)]
  have "addOptions L (URL_String (baseURL r) @ (if hasAuth r then ''a/'' else []) @
          TrimPrefix endpoint ''/'') opt = Inr (URLStr req)"
    by simp
  from assms(1) [OF this] True show ?thesis by auto
next
  case False
  with NewRequest_url [OF assms(2)] show ?thesis by simp
qed

lemma NewRequest_p007_url_query:
  assumes "\<And>u u'. addOptions L u opt = Inr u' \<Longrightarrow> \<exists>q. u' = u @ q"
    and "NewRequest_p007 L r method endpoint opt = Inr req"
  shows "if hasAuth r
         then \<exists>u q. url_Parse L (URL_String (baseURL r)) = Some u \<and>
                URLStr req = Scheme u @ ''://'' @ Host u @ ''/a'' @ Path u @
                             TrimPrefix endpoint ''/'' @ q \<and> (method \<noteq> ''GET'' \<longrightarrow> q = [])
         else \<exists>q. URLStr req = URL_String (baseURL r) @ TrimPrefix endpoint ''/'' @ q \<and>
                (method \<noteq> ''GET'' \<longrightarrow> q = [])"
proof -
  from NewRequest_p007_steps [OF assms(2)] obtain b u req0 req1 where
    st: "if hasAuth r
         then (\<exists>p. url_Parse L (URL_String (baseURL r)) = Some p \<and>
                   b = Scheme p @ ''://'' @ Host p @ ''/a'' @ Path p)
         else b = URL_String (baseURL r)"
        "if method = ''GET''
         then addOptions L (b @ TrimPrefix endpoint ''/'') opt = Inr u
         else u = b @ TrimPrefix endpoint ''/''"
        "http_NewRequestWithContext L method u = Inr req0"
        "attach_payload L method opt req0 = Inr req1"
        "req = Header_Set ''Accept'' ''application/json'' (apply_auth_p007 L r req1)"
    by blast
  have u: "URLStr req = u"
    using st(3,4,5)
    by (simp add: Header_Set_url apply_auth_p007_url attach_payload_url new_request_fields)
  have q: "\<exists>q. u = b @ TrimPrefix endpoint ''/'' @ q \<and> (method \<noteq> ''GET'' \<longrightarrow> q = [])"
  proof (cases "method = ''GET''")
    case True
    with st(2) have "addOptions L (b @ TrimPrefix endpoint ''/'') opt = Inr u" by simp
    from assms(1) [OF this] True show ?thesis by auto
  next
    case False
    with st(2) show ?thesis by simp
  qed
  show ?thesis
  proof (cases "hasAuth r")
    case True
    with st(1) obtain p where "url_Parse L (URL_String (baseURL r)) = Some p"
      "b = Scheme p @ ''://'' @ Host p @ ''/a'' @ Path p" by auto
    with q u True show ?thesis by auto
  next
    case False
    with st(1) q u show ?thesis by auto
  qed
qed

text \<open>
  C3, read with spec 4.3 step 2 (the segment comes immediately after the base URL's
  host and optional path prefix, before the endpoint path), fails for the builder of
  \<open>src/unnamed/part_007\<close> (first document): with the base URL \<open>http://h/r/\<close> and
  basic credentials, the URL of a POST to \<open>changes/\<close> is \<open>http://h/a/r/changes/\<close>, where
  the prefix stands before the base path. The builder of \<open>src/request.go\<close> gives
  \<open>http://h/r/a/changes/\<close> for the same call.
\<close>

theorem NewRequest_p007_prefix_counterexample:
  "authType basic0 \<noteq> [] \<and> username basic0 \<noteq> [] \<and> password basic0 \<noteq> [] \<and>
   \<not> isl (NewRequest_p007 lib0 basic0 ''POST'' ''changes/'' PNil) \<and>
   URLStr (projr (NewRequest_p007 lib0 basic0 ''POST'' ''changes/'' PNil)) = ''http://h/a/r/changes/'' \<and>
   \<not> prefix_after_base (baseURL basic0)
        (URLStr (projr (NewRequest_p007 lib0 basic0 ''POST'' ''changes/'' PNil))) \<and>
   URLStr (projr (NewRequest lib0 basic0 ''POST'' ''changes/'' PNil)) = ''http://h/r/a/changes/''"
  by (simp add: NewRequest_def NewRequest_p007_def Let_def http_NewRequestWithContext_def
        attach_payload_def hasAuth_def URL_String_def TrimPrefix_def prefix_after_base_def
        url_Parse0_def apply_auth_url apply_auth_p007_url Header_Set_url)

text \<open>
  C3, amended. Let the query of a GET be appended by \<open>addOptions\<close>. If scheme,
  username and secret are all non-empty, the builder of \<open>src/request.go\<close> returns the
  base URL, the prefix \<open>a/\<close> once, the endpoint without one leading separator, and the
  query: the prefix comes immediately after the base URL. For the same client the
  builder of \<open>src/unnamed/part_007\<close> (first document) returns scheme and host of the
  re-parsed base URL, then \<open>/a\<close>, then its path, the endpoint and the query: the prefix
  comes immediately after the host, before the base path. If one of the three is
  empty, both return the base URL, the endpoint and the query, with no prefix.
\<close>

theorem NewRequest_prefix_placement:
  assumes "\<And>u u'. addOptions L u opt = Inr u' \<Longrightarrow> \<exists>q. u' = u @ q"
  shows
  "(NewRequest L r method endpoint opt = Inr req \<longrightarrow>
      (\<exists>q. URLStr req =
              URL_String (baseURL r) @
              (if authType r \<noteq> [] \<and> username r \<noteq> [] \<and> password r \<noteq> [] then ''a/'' else []) @
              TrimPrefix endpoint ''/'' @ q \<and>
            (method \<noteq> ''GET'' \<longrightarrow> q = [])) \<and>
      (authType r \<noteq> [] \<and> username r \<noteq> [] \<and> password r \<noteq> [] \<longrightarrow>
         prefix_after_base (baseURL r) (URLStr req))) \<and>
   (NewRequest_p007 L r method endpoint opt = Inr req' \<longrightarrow>
      (if authType r \<noteq> [] \<and> username r \<noteq> [] \<and> password r \<noteq> []
       then \<exists>u q. url_Parse L (URL_String (baseURL r)) = Some u \<and>
              URLStr req' = Scheme u @ ''://'' @ Host u @ ''/a'' @ Path u @
                            TrimPrefix endpoint ''/'' @ q \<and>
              (method \<noteq> ''GET'' \<longrightarrow> q = []) \<and>
              (prefix ''/'' (Path u) \<longrightarrow> prefix_after_host u (URLStr req'))
       else \<exists>q. URLStr req' = URL_String (baseURL r) @ TrimPrefix endpoint ''/'' @ q \<and>
              (method \<noteq> ''GET'' \<longrightarrow> q = [])))"
proof (intro conjI impI)
  assume a: "NewRequest L r method endpoint opt = Inr req"
  from NewRequest_url_query [OF assms a]
  show "\<exists>q. URLStr req =
              URL_String (baseURL r) @
              (if authType r \<noteq> [] \<and> username r \<noteq> [] \<and> password r \<noteq> [] then ''a/'' else []) @
              TrimPrefix endpoint ''/'' @ q \<and>
            (method \<noteq> ''GET'' \<longrightarrow> q = [])"
    by (simp add: hasAuth_iff)
next
  assume a: "NewRequest L r method endpoint opt = Inr req"
    and h: "authType r \<noteq> [] \<and> username r \<noteq> [] \<and> password r \<noteq> []"
  from NewRequest_url_query [OF assms a] h
  show "prefix_after_base (baseURL r) (URLStr req)"
    by (auto simp: hasAuth_iff prefix_after_base_def)
next
  assume a: "NewRequest_p007 L r method endpoint opt = Inr req'"
  show "if authType r \<noteq> [] \<and> username r \<noteq> [] \<and> password r \<noteq> []
       then \<exists>u q. url_Parse L (URL_String (baseURL r)) = Some u \<and>
              URLStr req' = Scheme u @ ''://'' @ Host u @ ''/a'' @ Path u @
                            TrimPrefix endpoint ''/'' @ q \<and>
              (method \<noteq> ''GET'' \<longrightarrow> q = []) \<and>
              (prefix ''/'' (Path u) \<longrightarrow> prefix_after_host u (URLStr req'))
       else \<exists>q. URLStr req' = URL_String (baseURL r) @ TrimPrefix endpoint ''/'' @ q \<and>
              (method \<noteq> ''GET'' \<longrightarrow> q = [])"
  proof (cases "hasAuth r")
    case True
    with NewRequest_p007_url_query [OF assms a] obtain u q where
      p: "url_Parse L (URL_String (baseURL r)) = Some u"
         "URLStr req' = Scheme u @ ''://'' @ Host u @ ''/a'' @ Path u @
                        TrimPrefix endpoint ''/'' @ q"
         "method \<noteq> ''GET'' \<longrightarrow> q = []"
      by auto
    have "prefix ''/'' (Path u) \<longrightarrow> prefix_after_host u (URLStr req')"
      using p(2) by (auto simp: prefix_after_host_def prefix_def)
    with p True show ?thesis
      by (simp only: hasAuth_iff [symmetric] if_True) blast
  next
    case False
    with NewRequest_p007_url_query [OF assms a] show ?thesis
      by (simp only: hasAuth_iff [symmetric] if_False)
  qed
qed

lemma anon_request_built:
  "\<exists>req. NewRequest lib0 anon0 ''POST'' ''/changes/'' PNil = Inr req"
  by (simp add: NewRequest_def Let_def http_NewRequestWithContext_def attach_payload_def)

lemma anon_request_built_p007:
  "\<exists>req. NewRequest_p007 lib0 anon0 ''POST'' ''/changes/'' PNil = Inr req"
  by (simp add: NewRequest_p007_def Let_def http_NewRequestWithContext_def attach_payload_def
        hasAuth_def)

theorem NewRequest_prefix_placement_witness:
  "(\<exists>req. NewRequest lib0 basic0 ''POST'' ''/changes/'' PNil = Inr req \<and>
          URLStr req = ''http://h/r/a/changes/'' \<and>
          prefix_after_base (baseURL basic0) (URLStr req)) \<and>
   (\<exists>req. NewRequest_p007 lib0 basic0 ''POST'' ''/changes/'' PNil = Inr req \<and>
          URLStr req = ''http://h/a/r/changes/'' \<and>
          prefix_after_host (baseURL basic0) (URLStr req)) \<and>
   (\<exists>req. NewRequest lib0 anon0 ''POST'' ''/changes/'' PNil = Inr req \<and>
          URLStr req = ''http://h/r/changes/'') \<and>
   (\<exists>req. NewRequest_p007 lib0 anon0 ''POST'' ''/changes/'' PNil = Inr req \<and>
          URLStr req = ''http://h/r/changes/'')"
proof -
  have q: "\<And>opt u u'. addOptions lib0 u opt = Inr u' \<Longrightarrow> \<exists>q. u' = u @ q"
    by simp
  obtain req1 where a: "NewRequest lib0 basic0 ''POST'' ''/changes/'' PNil = Inr req1"
    using basic_request_built by blast
  obtain req2 where b: "NewRequest_p007 lib0 basic0 ''POST'' ''/changes/'' PNil = Inr req2"
    using basic_request_built_p007 by blast
  obtain req3 where c: "NewRequest lib0 anon0 ''POST'' ''/changes/'' PNil = Inr req3"
    using anon_request_built by blast
  obtain req4 where d: "NewRequest_p007 lib0 anon0 ''POST'' ''/changes/'' PNil = Inr req4"
    using anon_request_built_p007 by blast
  have p: "url_Parse lib0 (URL_String (baseURL basic0)) = Some (baseURL basic0)"
    by (simp add: URL_String_def url_Parse0_def)
  from NewRequest_prefix_placement [of lib0 PNil basic0 "''POST''" "''/changes/''" req1 req2, OF q]
    a b p
  have e: "URLStr req1 = ''http://h/r/a/changes/''" "prefix_after_base (baseURL basic0) (URLStr req1)"
    "URLStr req2 = ''http://h/a/r/changes/''" "prefix_after_host (baseURL basic0) (URLStr req2)"
    by (auto simp: URL_String_def TrimPrefix_def)
  from NewRequest_prefix_placement [of lib0 PNil anon0 "''POST''" "''/changes/''" req3 req4, OF q]
    c d
  have f: "URLStr req3 = ''http://h/r/changes/''" "URLStr req4 = ''http://h/r/changes/''"
    by (auto simp: URL_String_def TrimPrefix_def)
  from a b c d e f show ?thesis by simp
qed

lemma CheckResponse_2xx:
  "200 \<le> StatusCode resp \<Longrightarrow> StatusCode resp \<le> 299 \<Longrightarrow> CheckResponse L resp = None"
  by (simp add: CheckResponse_def)

text \<open>
  C4. The decoder of \<open>src/unnamed/part_007\<close> (first document) does not look for the
  sentinel before a structured destination: it discards five bytes of every body. A
  successful response whose body is shorter than five bytes ends in \<open>io.EOF\<close>, and a
  longer body without the sentinel reaches the JSON decoder without its first five
  bytes. The claim asks for a no-op and a successful parse there.
\<close>

theorem Do_p007_discards_five_bytes:
  assumes "client_Do L (client r) req = Completed resp"
    and "200 \<le> StatusCode resp" and "StatusCode resp \<le> 299"
    and "RespBodyErr resp = None"
  shows "(length (RespBody resp) < 5 \<longrightarrow>
            Do_p007 L r req DValue = (Some resp, Some ErrEOF, NoStore)) \<and>
         (5 \<le> length (RespBody resp) \<longrightarrow>
            Do_p007 L r req DValue =
              (case json_Decode L (drop 5 (RespBody resp)) None of
                 Inl err \<Rightarrow> (Some resp, Some err, NoStore)
               | Inr x \<Rightarrow> (Some resp, None, StoredValue x)))"
  using assms
  by (simp add: Do_p007_def CheckResponse_2xx io_CopyN_Discard_def)

lemma server0_preferences:
  "server0 c \<lparr>Method = m, URLStr = ''http://h/r/accounts/self/preferences'', Header = h, Body = b\<rparr> =
     Completed \<lparr>StatusCode = 200, RespBody = ''{}'', RespBodyErr = None\<rparr>"
  by (simp add: server0_def)

lemma preferences_request:
  "NewRequest_p007 lib0 anon0 ''GET'' ''accounts/self/preferences'' PNil =
     Inr \<lparr>Method = ''GET'', URLStr = ''http://h/r/accounts/self/preferences'',
          Header = (\<lambda>k. [])(''Accept'' := [''application/json'']), Body = None\<rparr>"
  by (simp add: NewRequest_p007_def Let_def http_NewRequestWithContext_def attach_payload_def
        hasAuth_def URL_String_def TrimPrefix_def apply_auth_p007_def Header_Set_def)

theorem Do_p007_discards_five_bytes_witness:
  "Call_p007 lib0 anon0 ''GET'' ''accounts/self/preferences'' PNil DValue =
     (Some \<lparr>StatusCode = 200, RespBody = ''{}'', RespBodyErr = None\<rparr>, Some ErrEOF, NoStore)"
  using Do_p007_discards_five_bytes [of lib0 anon0
          "\<lparr>Method = ''GET'', URLStr = ''http://h/r/accounts/self/preferences'',
            Header = (\<lambda>k. [])(''Accept'' := [''application/json'']), Body = None\<rparr>"
          "\<lparr>StatusCode = 200, RespBody = ''{}'', RespBodyErr = None\<rparr>"]
  by (simp add: Call_p007_def preferences_request server0_preferences)

lemma Do_unprefixed_body:
  assumes "client_Do L (client r) req = Completed resp"
    and "200 \<le> StatusCode resp" and "StatusCode resp \<le> 299"
    and "RespBodyErr resp = None"
    and "\<not> prefix magicPrefix (RespBody resp)"
  shows "Do L r req DValue =
           (case json_Unmarshal L (RespBody resp) of
              Inl err \<Rightarrow> (Some resp, Some err, NoStore)
            | Inr x \<Rightarrow> (Some resp, None, StoredValue x))"
  using assms
  by (simp add: Do_def CheckResponse_2xx io_ReadAll_def RemoveMagicPrefixLine_def)








lemma server0_name:
  "server0 c \<lparr>Method = m, URLStr = ''http://h/r/groups/1/name'', Header = h, Body = b\<rparr> =
     Completed \<lparr>StatusCode = 200,
                RespBody = magicPrefix @ [CHR 0x22] @ ''demo'' @ [CHR 0x22, CHR 0x0A],
                RespBodyErr = None\<rparr>"
  by (simp add: server0_def)








lemma CheckResponse_status:
  "\<not> (200 \<le> StatusCode resp \<and> StatusCode resp \<le> 299) \<Longrightarrow>
   CheckResponse L resp = Some (ErrorResponse (StatusCode resp) (error_message L (RespBody resp)))"
  by (simp add: CheckResponse_def)

text \<open>
  C6. When the request is built and the HTTP exchange completes with a status outside
  200..299, \<open>Call\<close> returns the response together with an error that carries the
  status code, whatever the destination.
\<close>

theorem Call_status_error:
  assumes "NewRequest L r method u opt = Inr req"
    and "client_Do L (client r) req = Completed resp"
    and "\<not> (200 \<le> StatusCode resp \<and> StatusCode resp \<le> 299)"
  shows "\<exists>msg. Call L r method u opt v =
           (Some resp, Some (ErrorResponse (StatusCode resp) msg), NoStore)"
  using assms(1,2) CheckResponse_status [OF assms(3), of L]
  by (simp add: Call_def Do_def)

lemma projects_request:
  "NewRequest lib0 anon0 ''GET'' ''projects/'' PNil =
     Inr \<lparr>Method = ''GET'', URLStr = ''http://h/r/projects/'',
          Header = (\<lambda>k. [])(''Accept'' := [''application/json'']), Body = None\<rparr>"
  by (simp add: NewRequest_def Let_def http_NewRequestWithContext_def attach_payload_def
        hasAuth_def URL_String_def TrimPrefix_def apply_auth_def Header_Set_def)

lemma server0_projects:
  "server0 c \<lparr>Method = m, URLStr = ''http://h/r/projects/'', Header = h, Body = b\<rparr> =
     Completed \<lparr>StatusCode = 404, RespBody = ''Not found'', RespBodyErr = None\<rparr>"
  by (simp add: server0_def)

theorem Call_status_error_witness:
  "\<exists>msg. Call lib0 anon0 ''GET'' ''projects/'' PNil DValue =
     (Some \<lparr>StatusCode = 404, RespBody = ''Not found'', RespBodyErr = None\<rparr>,
      Some (ErrorResponse 404 msg), NoStore)"
  using Call_status_error [of lib0 anon0 "''GET''" "''projects/''" PNil
          "\<lparr>Method = ''GET'', URLStr = ''http://h/r/projects/'',
            Header = (\<lambda>k. [])(''Accept'' := [''application/json'']), Body = None\<rparr>"
          "\<lparr>StatusCode = 404, RespBody = ''Not found'', RespBodyErr = None\<rparr>" DValue]
  by (simp add: projects_request server0_projects)

lemma suffix_slash_append: "suffix ''/'' (p @ ''/'')"
  by (simp add: suffix_def)

lemma no_double_slash: "\<not> suffix ''/'' p \<Longrightarrow> \<not> suffix ''//'' (p @ ''/'')"
  by (auto simp: suffix_def)

lemma SetBaseURL_Inr:
  assumes "SetBaseURL L s = Inr n"
  shows "Scheme n \<noteq> [] \<and> suffix ''/'' (Path n)"
  using assms
  by (auto simp: SetBaseURL_def suffix_slash_append split: option.splits if_splits)

text \<open>
  C8. For a string that parses as an absolute URL whose path lacks a trailing
  separator, the resolver returns that URL with one separator appended: its text ends
  in a separator and its path not in two. Resolving the text of a resolved URL gives
  the same URL again (for a parser that reads back what \<open>String\<close> prints). A string
  that does not parse, or parses to a URL without a scheme as the empty string does,
  gives an error; the resolver uses no client.
\<close>

theorem SetBaseURL_normalizes:
  "(url_Parse L s = Some u \<longrightarrow> Scheme u \<noteq> [] \<longrightarrow> \<not> suffix ''/'' (Path u) \<longrightarrow>
      SetBaseURL L s = Inr (u\<lparr>Path := Path u @ ''/''\<rparr>) \<and>
      suffix ''/'' (URL_String (u\<lparr>Path := Path u @ ''/''\<rparr>)) \<and>
      \<not> suffix ''//'' (Path (u\<lparr>Path := Path u @ ''/''\<rparr>))) \<and>
   (SetBaseURL L s = Inr n \<longrightarrow> url_Parse L (URL_String n) = Some n \<longrightarrow>
      SetBaseURL L (URL_String n) = Inr n) \<and>
   (url_Parse L s = None \<or> (\<exists>e. url_Parse L s = Some e \<and> Scheme e = []) \<longrightarrow>
      (\<exists>err. SetBaseURL L s = Inl err))"
proof (intro conjI impI)
  assume "url_Parse L s = Some u" "Scheme u \<noteq> []" "\<not> suffix ''/'' (Path u)"
  then show "SetBaseURL L s = Inr (u\<lparr>Path := Path u @ ''/''\<rparr>)"
    by (simp add: SetBaseURL_def)
next
  show "suffix ''/'' (URL_String (u\<lparr>Path := Path u @ ''/''\<rparr>))"
    by (simp add: URL_String_def suffix_def)
next
  assume "\<not> suffix ''/'' (Path u)"
  then show "\<not> suffix ''//'' (Path (u\<lparr>Path := Path u @ ''/''\<rparr>))"
    by (simp add: no_double_slash)
next
  assume a: "SetBaseURL L s = Inr n" and b: "url_Parse L (URL_String n) = Some n"
  from SetBaseURL_Inr [OF a] b show "SetBaseURL L (URL_String n) = Inr n"
    by (simp add: SetBaseURL_def)
next
  assume "url_Parse L s = None \<or> (\<exists>e. url_Parse L s = Some e \<and> Scheme e = [])"
  then show "\<exists>err. SetBaseURL L s = Inl err"
    by (auto simp: SetBaseURL_def)
qed

theorem SetBaseURL_normalizes_witness:
  "SetBaseURL lib0 ''http://h/r'' = Inr \<lparr>Scheme = ''http'', Host = ''h'', Path = ''/r/''\<rparr> \<and>
   SetBaseURL lib0 ''http://h/r/'' = Inr \<lparr>Scheme = ''http'', Host = ''h'', Path = ''/r/''\<rparr> \<and>
   (\<exists>err. SetBaseURL lib0 [] = Inl err)"
proof -
  let ?u = "\<lparr>Scheme = ''http'', Host = ''h'', Path = ''/r''\<rparr>"
  let ?n = "\<lparr>Scheme = ''http'', Host = ''h'', Path = ''/r/''\<rparr>"
  have p: "url_Parse lib0 ''http://h/r'' = Some ?u" by (simp add: url_Parse0_def)
  have q: "\<not> suffix ''/'' (Path ?u)" by (simp add: suffix_to_prefix)
  from SetBaseURL_normalizes [of lib0 "''http://h/r''" ?u] p q
  have a: "SetBaseURL lib0 ''http://h/r'' = Inr ?n" by simp
  have r: "url_Parse lib0 (URL_String ?n) = Some ?n"
    by (simp add: url_Parse0_def URL_String_def)
  from SetBaseURL_normalizes [of lib0 "''http://h/r''" _ ?n] a r
  have b: "SetBaseURL lib0 ''http://h/r/'' = Inr ?n" by (simp add: URL_String_def)
  have e: "url_Parse lib0 [] = Some \<lparr>Scheme = [], Host = [], Path = []\<rparr>"
    by (simp add: url_Parse0_def)
  from SetBaseURL_normalizes [of lib0 "[]"] e
  have c: "\<exists>err. SetBaseURL lib0 [] = Inl err" by simp
  from a b c show ?thesis by simp
qed

text \<open>
  C10. A client constructed without an HTTP client of its own uses \<open>defaultClient\<close>,
  whose transport has \<open>InsecureSkipVerify\<close> set: it accepts the server's certificate
  whether or not the chain verifies.
\<close>

theorem NewClient_default_transport_insecure:
  assumes "NewClient L gerritURL None = Inr g"
  shows "Transport (client (Requester g)) = Some transport \<and>
         InsecureSkipVerify (TLSClientConfig transport) \<and>
         accepts_certificate (TLSClientConfig transport) chain_verifies"
  using assms
  by (auto simp: NewClient_def Let_def defaultClient_def transport_def accepts_certificate_def
           split: sum.splits)

theorem NewClient_default_transport_insecure_witness:
  "\<exists>g. NewClient lib0 ''http://h/r'' None = Inr g \<and>
       Transport (client (Requester g)) = Some transport \<and>
       accepts_certificate (TLSClientConfig transport) False"
proof -
  have s: "SetBaseURL lib0 ''http://h/r'' = Inr \<lparr>Scheme = ''http'', Host = ''h'', Path = ''/r/''\<rparr>"
    by (simp add: SetBaseURL_def url_Parse0_def suffix_to_prefix)
  then obtain g where g: "NewClient lib0 ''http://h/r'' None = Inr g"
    by (simp add: NewClient_def Let_def)
  from NewClient_default_transport_insecure [OF g, of False] g show ?thesis by blast
qed





































end
